theory Spec2Isabelle
  imports Complex_Main "HOL-Library.Sublist"
begin

section \<open>Python strings\<close>

text \<open>
  Strings are byte strings (\<^typ>\<open>string\<close>). \<open>lower\<close> is Python's \<^verbatim>\<open>str.lower()\<close> on the
  ASCII letters, \<open>str_in sub s\<close> is \<^verbatim>\<open>sub in s\<close>, \<open>strip\<close> is \<^verbatim>\<open>str.strip()\<close> on the ASCII
  white space and \<open>join\<close> is \<^verbatim>\<open>sep.join(xs)\<close>. Every literal the service compares against
  is ASCII.
\<close>

definition lower_char :: "char \<Rightarrow> char" where
  "lower_char c =
     (case map_of (zip ''ABCDEFGHIJKLMNOPQRSTUVWXYZ'' ''abcdefghijklmnopqrstuvwxyz'') c of
        Some d \<Rightarrow> d
      | None \<Rightarrow> c)"

definition lower :: "string \<Rightarrow> string" where
  "lower s = map lower_char s"

primrec str_in :: "string \<Rightarrow> string \<Rightarrow> bool" where
  "str_in sub [] = (sub = [])"
| "str_in sub (c # cs) = (prefix sub (c # cs) \<or> str_in sub cs)"

definition isspace :: "char \<Rightarrow> bool" where
  "isspace c = (c \<in> set [CHR 0x09, CHR 0x0A, CHR 0x0B, CHR 0x0C, CHR 0x0D,
                           CHR 0x1C, CHR 0x1D, CHR 0x1E, CHR 0x1F, CHR 0x20])"

definition strip :: "string \<Rightarrow> string" where
  "strip s = rev (dropWhile isspace (rev (dropWhile isspace s)))"

fun join :: "string \<Rightarrow> string list \<Rightarrow> string" where
  "join sep [] = []"
| "join sep [x] = x"
| "join sep (x # y # ys) = x @ sep @ join sep (y # ys)"

section \<open>models.py\<close>

datatype PainLevel = NONE | MILD | MODERATE | SEVERE | EMERGENCY

datatype UrgencyLevel = LOW | MEDIUM | HIGH | EMERGENCY

text \<open>The enumeration is a \<^verbatim>\<open>str\<close> subclass: a member is truthy when its value is not empty.\<close>

fun PainLevel_value :: "PainLevel \<Rightarrow> string" where
  "PainLevel_value NONE = ''0''"
| "PainLevel_value MILD = ''1-3''"
| "PainLevel_value MODERATE = ''4-6''"
| "PainLevel_value SEVERE = ''7-8''"
| "PainLevel_value PainLevel.EMERGENCY = ''9-10''"

record QualificationData =
  chief_complaint :: "string option"
  pain_level :: "PainLevel option"
  urgency :: UrgencyLevel
  insurance_provider :: "string option"
  preferred_appointment_time :: "string option"
  last_dental_visit :: "string option"
  current_medications :: "string list option"
  allergies :: "string list option"
  emergency_indicators :: "string list"

text \<open>\<^verbatim>\<open>QualificationData()\<close>: every field at its declared default.\<close>

definition QualificationData_new :: QualificationData where
  "QualificationData_new =
     \<lparr>chief_complaint = None, pain_level = None, urgency = LOW, insurance_provider = None,
      preferred_appointment_time = None, last_dental_visit = None,
      current_medications = Some [], allergies = Some [], emergency_indicators = []\<rparr>"

text \<open>Python truthiness of an optional string and of an optional pain level.\<close>

definition truthy_str :: "string option \<Rightarrow> bool" where
  "truthy_str v = (case v of None \<Rightarrow> False | Some s \<Rightarrow> s \<noteq> [])"

definition truthy_pain :: "PainLevel option \<Rightarrow> bool" where
  "truthy_pain v = (case v of None \<Rightarrow> False | Some p \<Rightarrow> PainLevel_value p \<noteq> [])"

text \<open>\<^verbatim>\<open>(self.chief_complaint or "")\<close>\<close>

definition or_empty :: "string option \<Rightarrow> string" where
  "or_empty v = (case v of None \<Rightarrow> [] | Some s \<Rightarrow> s)"

definition requires_escalation :: "QualificationData \<Rightarrow> bool" where
  "requires_escalation self =
     (let emergency_conditions =
        [pain_level self \<in> set [Some PainLevel.EMERGENCY],
         str_in ''swelling'' (lower (or_empty (chief_complaint self))),
         str_in ''fever'' (lower (or_empty (chief_complaint self))),
         str_in ''trauma'' (lower (or_empty (chief_complaint self))),
         str_in ''bleeding'' (lower (or_empty (chief_complaint self))),
         length (emergency_indicators self) > 0]
      in list_ex (\<lambda>b. b) emergency_conditions)"

text \<open>
  A conversation turn. The \<^verbatim>\<open>timestamp\<close> field (the clock at construction) is not part
  of the model.
\<close>

record ConversationTurn =
  speaker :: string
  message :: string
  audio_url :: "string option"
  confidence_score :: "rat option"

section \<open>ai\_service.py: pure helpers\<close>

text \<open>
  \<^verbatim>\<open>_normalize_pain_level\<close>. The argument is a \<^verbatim>\<open>str\<close> as annotated, so \<^verbatim>\<open>str(pain_input)\<close>
  is the argument itself.
\<close>

definition normalize_pain_level :: "string \<Rightarrow> PainLevel option" where
  "normalize_pain_level pain_input =
     (let pain_str = lower pain_input in
      if list_ex (\<lambda>num. str_in num pain_str) [''9'', ''10''] then Some PainLevel.EMERGENCY
      else if list_ex (\<lambda>num. str_in num pain_str) [''7'', ''8''] then Some SEVERE
      else if list_ex (\<lambda>num. str_in num pain_str) [''4'', ''5'', ''6''] then Some MODERATE
      else if list_ex (\<lambda>num. str_in num pain_str) [''1'', ''2'', ''3''] then Some MILD
      else if str_in ''0'' pain_str \<or> str_in ''no pain'' pain_str then Some NONE
      else if list_ex (\<lambda>word. str_in word pain_str)
                [''excruciating'', ''unbearable'', ''severe''] then Some SEVERE
      else if list_ex (\<lambda>word. str_in word pain_str)
                [''moderate'', ''strong'', ''significant''] then Some MODERATE
      else if list_ex (\<lambda>word. str_in word pain_str)
                [''mild'', ''slight'', ''minor''] then Some MILD
      else if list_ex (\<lambda>word. str_in word pain_str)
                [''none'', ''no'', ''nothing''] then Some NONE
      else None)"

text \<open>\<^verbatim>\<open>_calculate_urgency\<close>\<close>

definition calculate_urgency :: "QualificationData \<Rightarrow> UrgencyLevel" where
  "calculate_urgency data =
     (if pain_level data = Some PainLevel.EMERGENCY then UrgencyLevel.EMERGENCY
      else if pain_level data = Some SEVERE then HIGH
      else if pain_level data = Some MODERATE then MEDIUM
      else LOW)"

text \<open>
  \<^verbatim>\<open>_check_escalation_conditions\<close> returns one of two dictionaries:
  \<^verbatim>\<open>{"escalate": False}\<close> or \<^verbatim>\<open>{"escalate": True, "reason": r, "message": m}\<close>.
\<close>

datatype escalation_check = No_escalation | Escalation string string

fun escalate :: "escalation_check \<Rightarrow> bool" where
  "escalate No_escalation = False"
| "escalate (Escalation r m) = True"

fun reason :: "escalation_check \<Rightarrow> string option" where
  "reason No_escalation = None"
| "reason (Escalation r m) = Some r"

fun escalation_message :: "escalation_check \<Rightarrow> string option" where
  "escalation_message No_escalation = None"
| "escalation_message (Escalation r m) = Some m"

definition emergency_keywords :: "string list" where
  "emergency_keywords =
     [''can't breathe'', ''difficulty breathing'', ''swelling in throat'',
      ''severe bleeding'', ''won't stop bleeding'', ''facial swelling'',
      ''fever'', ''infection'', ''abscess'', ''trauma'', ''accident'',
      ''knocked out'', ''allergic reaction'']"

text \<open>The \<^verbatim>\<open>for keyword in emergency_keywords\<close> loop: the first keyword found returns.\<close>

fun scan_keywords :: "string list \<Rightarrow> string \<Rightarrow> escalation_check" where
  "scan_keywords [] user_lower = No_escalation"
| "scan_keywords (keyword # keywords) user_lower =
     (if str_in keyword user_lower
      then Escalation ''emergency_condition''
             ''This sounds like it needs immediate attention. I'm connecting you with our emergency dental team right now.''
      else scan_keywords keywords user_lower)"

definition check_escalation_conditions :: "string \<Rightarrow> QualificationData \<Rightarrow> escalation_check" where
  "check_escalation_conditions user_input qualification_data =
     (let user_lower = lower user_input in
      if pain_level qualification_data = Some PainLevel.EMERGENCY
      then Escalation ''severe_pain''
             ''I understand you're in severe pain. Let me connect you immediately with our emergency dental line.''
      else scan_keywords emergency_keywords user_lower)"

text \<open>\<^verbatim>\<open>_identify_missing_data\<close>\<close>

definition identify_missing_data :: "QualificationData \<Rightarrow> string list" where
  "identify_missing_data qualification_data =
     (if \<not> truthy_str (chief_complaint qualification_data) then [''chief_complaint''] else []) @
     (if \<not> truthy_pain (pain_level qualification_data) then [''pain_level''] else []) @
     (if \<not> truthy_str (insurance_provider qualification_data) then [''insurance_provider''] else []) @
     (if \<not> truthy_str (preferred_appointment_time qualification_data)
      then [''preferred_appointment_time''] else [])"

section \<open>ai\_service.py: the environment of the service\<close>

text \<open>Exceptions, as values.\<close>

datatype error = APIError | JSONDecodeError | ValueError | InternalError

text \<open>
  One entry of the dictionary that \<^verbatim>\<open>json.loads\<close> gives for the extraction reply, read at
  the declared type of the field its key names:
  \<^item> \<open>Pain_level v\<close>: the key \<^verbatim>\<open>"pain_level"\<close>;
  \<^item> \<open>Field u\<close>: the key of any other field of \<^verbatim>\<open>QualificationData\<close>, with its value;
  \<^item> \<open>Attribute k t\<close>: a key \<open>k\<close> naming an attribute of the model that is not a field
    (a method), for which \<^verbatim>\<open>hasattr\<close> holds and \<^verbatim>\<open>setattr\<close> raises; \<open>t\<close> is the truthiness
    of the value;
  \<^item> \<open>Unknown k t\<close>: a key for which \<^verbatim>\<open>hasattr\<close> fails.
\<close>

datatype field_item =
    Chief_complaint string
  | Urgency UrgencyLevel
  | Insurance_provider string
  | Preferred_appointment_time string
  | Last_dental_visit string
  | Current_medications "string list"
  | Allergies "string list"
  | Emergency_indicators "string list"

datatype item =
    Pain_level string
  | Field field_item
  | Attribute string bool
  | Unknown string bool

text \<open>
  The two prompts sent to the model, by what is interpolated into them: the extraction
  prompt carries the user input and the current data, the next-question prompt the missing
  fields, the conversation text and the current data.
\<close>

datatype request =
    ExtractionRequest string QualificationData
  | NextQuestionRequest "string list" string QualificationData

text \<open>
  What the service does not own:
  \<^item> \<open>create\<close>: \<^verbatim>\<open>openai_client.chat.completions.create(...)\<close> followed by reading
    \<^verbatim>\<open>choices[0].message.content\<close>; \<open>Inl\<close> when the call or the read raises;
  \<^item> \<open>json_loads\<close>: \<^verbatim>\<open>json.loads\<close> and \<^verbatim>\<open>.items()\<close> on its result; \<open>Inl\<close> when the content
    is not a JSON object;
  \<^item> \<open>raises\<close>: an unexpected exception at a statement of \<^verbatim>\<open>process_conversation_turn\<close>,
    if the environment produces one there.
\<close>

datatype site =
    At_session | At_user_turn | At_extract | At_check
  | At_generate | At_ai_turn | At_store | At_result

record env =
  create :: "request \<Rightarrow> error + string"
  json_loads :: "string \<Rightarrow> error + item list"
  raises :: "site \<Rightarrow> error option"

text \<open>
  A session dictionary, and the service: the requests its client has received, the session
  dictionaries by address, and \<^verbatim>\<open>active_sessions\<close> from lead identifier to address. A
  dictionary found in \<^verbatim>\<open>active_sessions\<close> is shared with it; the default one is a new
  object that \<^verbatim>\<open>active_sessions\<close> does not hold until it is stored.
\<close>

record session =
  conversation_history :: "ConversationTurn list"
  qualification_data :: QualificationData
  turn_count :: int

record AIService =
  requests :: "request list"
  heap :: "nat \<Rightarrow> session"
  next_ref :: nat
  active_sessions :: "string \<rightharpoonup> nat"

definition new_session :: session where
  "new_session =
     \<lparr>conversation_history = [], qualification_data = QualificationData_new, turn_count = 0\<rparr>"

definition AIService_init :: AIService where
  "AIService_init =
     \<lparr>requests = [], heap = (\<lambda>r. new_session), next_ref = 0, active_sessions = Map.empty\<rparr>"

definition chat_create :: "env \<Rightarrow> request \<Rightarrow> AIService \<Rightarrow> (error + string) \<times> AIService" where
  "chat_create ev req sv = (create ev req, sv\<lparr>requests := requests sv @ [req]\<rparr>)"

text \<open>\<^verbatim>\<open>self.active_sessions.get(lead_id, {...})\<close>\<close>

definition session_get :: "AIService \<Rightarrow> string \<Rightarrow> nat \<times> AIService" where
  "session_get sv lead_id =
     (case active_sessions sv lead_id of
        Some r \<Rightarrow> (r, sv)
      | None \<Rightarrow> (next_ref sv,
                 sv\<lparr>heap := (heap sv)(next_ref sv := new_session),
                    next_ref := Suc (next_ref sv)\<rparr>))"

definition update_session :: "nat \<Rightarrow> (session \<Rightarrow> session) \<Rightarrow> AIService \<Rightarrow> AIService" where
  "update_session r f sv = sv\<lparr>heap := (heap sv)(r := f (heap sv r))\<rparr>"

section \<open>ai\_service.py: the extractor\<close>

fun truthy :: "item \<Rightarrow> bool" where
  "truthy (Pain_level v) = (v \<noteq> [])"
| "truthy (Field (Chief_complaint v)) = (v \<noteq> [])"
| "truthy (Field (Urgency v)) = True"
| "truthy (Field (Insurance_provider v)) = (v \<noteq> [])"
| "truthy (Field (Preferred_appointment_time v)) = (v \<noteq> [])"
| "truthy (Field (Last_dental_visit v)) = (v \<noteq> [])"
| "truthy (Field (Current_medications v)) = (v \<noteq> [])"
| "truthy (Field (Allergies v)) = (v \<noteq> [])"
| "truthy (Field (Emergency_indicators v)) = (v \<noteq> [])"
| "truthy (Attribute k t) = t"
| "truthy (Unknown k t) = t"

fun hasattr :: "item \<Rightarrow> bool" where
  "hasattr (Unknown k t) = False"
| "hasattr it = True"

fun setattr :: "QualificationData \<Rightarrow> field_item \<Rightarrow> QualificationData" where
  "setattr d (Chief_complaint v) = d\<lparr>chief_complaint := Some v\<rparr>"
| "setattr d (Urgency v) = d\<lparr>urgency := v\<rparr>"
| "setattr d (Insurance_provider v) = d\<lparr>insurance_provider := Some v\<rparr>"
| "setattr d (Preferred_appointment_time v) = d\<lparr>preferred_appointment_time := Some v\<rparr>"
| "setattr d (Last_dental_visit v) = d\<lparr>last_dental_visit := Some v\<rparr>"
| "setattr d (Current_medications v) = d\<lparr>current_medications := Some v\<rparr>"
| "setattr d (Allergies v) = d\<lparr>allergies := Some v\<rparr>"
| "setattr d (Emergency_indicators v) = d\<lparr>emergency_indicators := v\<rparr>"

text \<open>
  The \<^verbatim>\<open>for key, value in extracted.items()\<close> loop. \<^verbatim>\<open>current_data\<close> is updated in place,
  so the result is the exception that ended the loop, if any, with the data as they are
  at that point.
\<close>

fun update_fields :: "QualificationData \<Rightarrow> item list \<Rightarrow> error option \<times> QualificationData" where
  "update_fields current_data [] = (None, current_data)"
| "update_fields current_data (it # its) =
     (if truthy it \<and> hasattr it then
        (case it of
           Pain_level v \<Rightarrow>
             update_fields (current_data\<lparr>pain_level := normalize_pain_level v\<rparr>) its
         | Field u \<Rightarrow> update_fields (setattr current_data u) its
         | Attribute k t \<Rightarrow> (Some ValueError, current_data)
         | Unknown k t \<Rightarrow> update_fields current_data its)
      else update_fields current_data its)"

text \<open>The body of the \<^verbatim>\<open>try\<close> of \<^verbatim>\<open>_extract_qualification_data\<close>.\<close>

definition extract_try ::
  "env \<Rightarrow> string \<Rightarrow> QualificationData \<Rightarrow> AIService
     \<Rightarrow> (error option \<times> QualificationData) \<times> AIService" where
  "extract_try ev user_input current_data sv =
     (case chat_create ev (ExtractionRequest user_input current_data) sv of
        (Inl e, sv') \<Rightarrow> ((Some e, current_data), sv')
      | (Inr content, sv') \<Rightarrow>
          (case json_loads ev content of
             Inl e \<Rightarrow> ((Some e, current_data), sv')
           | Inr extracted \<Rightarrow>
               (case update_fields current_data extracted of
                  (Some e, d) \<Rightarrow> ((Some e, d), sv')
                | (None, d) \<Rightarrow> ((None, d\<lparr>urgency := calculate_urgency d\<rparr>), sv'))))"

text \<open>
  \<^verbatim>\<open>_extract_qualification_data\<close>: both the \<^verbatim>\<open>try\<close> and the \<^verbatim>\<open>except\<close> return
  \<^verbatim>\<open>current_data\<close>.
\<close>

definition extract_qualification_data ::
  "env \<Rightarrow> string \<Rightarrow> QualificationData \<Rightarrow> AIService \<Rightarrow> QualificationData \<times> AIService" where
  "extract_qualification_data ev user_input current_data sv =
     (case extract_try ev user_input current_data sv of
        ((None, d), sv') \<Rightarrow> (d, sv')
      | ((Some e, d), sv') \<Rightarrow> (d, sv'))"

section \<open>ai\_service.py: the response generator\<close>

text \<open>
  The dictionary \<^verbatim>\<open>_generate_ai_response\<close> returns; \<open>appointment_scheduled\<close> is \<open>None\<close> when
  the key is absent.
\<close>

record ai_response =
  message :: string
  complete :: bool
  appointment_scheduled :: "bool option"

text \<open>
  The text of the last six turns, one line per turn:
  \<^verbatim>\<open>"\n".join([f"{turn.speaker}: {turn.message}" for turn in conversation_history[-6:]])\<close>.
\<close>

definition conversation_text_of :: "ConversationTurn list \<Rightarrow> string" where
  "conversation_text_of history =
     join [CHR 0x0A]
       (map (\<lambda>turn. speaker turn @ '': '' @ ConversationTurn.message turn)
          (drop (length history - 6) history))"

text \<open>
  The body of the \<^verbatim>\<open>try\<close> of \<^verbatim>\<open>_generate_ai_response\<close>. Its parameters \<open>history\<close>,
  \<open>data\<close> and \<open>count\<close> are the source's \<^verbatim>\<open>conversation_history\<close>, \<^verbatim>\<open>qualification_data\<close>
  and \<^verbatim>\<open>turn_count\<close>.
\<close>

definition generate_try ::
  "env \<Rightarrow> ConversationTurn list \<Rightarrow> QualificationData \<Rightarrow> int \<Rightarrow> AIService
     \<Rightarrow> (error + ai_response) \<times> AIService" where
  "generate_try ev history data count sv =
     (let conversation_text = conversation_text_of history;
          missing_data = identify_missing_data data
      in
        if count \<ge> 10 \<or> missing_data = [] then
          (if truthy_str (chief_complaint data)
                \<and> truthy_pain (pain_level data)
           then (Inr \<lparr>ai_response.message =
                        ''Thank you for all that information. Based on what you've shared, I'd like to schedule you for an appointment. Let me connect you with our scheduling team.'',
                      complete = True, appointment_scheduled = Some True\<rparr>, sv)
           else (Inr \<lparr>ai_response.message =
                        ''Thank you for your time. I'll have one of our team members follow up with you to discuss your dental needs in more detail.'',
                      complete = True, appointment_scheduled = Some False\<rparr>, sv))
        else
          (case chat_create ev
                  (NextQuestionRequest missing_data conversation_text data) sv of
             (Inl e, sv') \<Rightarrow> (Inl e, sv')
           | (Inr content, sv') \<Rightarrow>
               (Inr \<lparr>ai_response.message = strip content, complete = False,
                     appointment_scheduled = None\<rparr>, sv')))"

text \<open>\<^verbatim>\<open>_generate_ai_response\<close>: the \<^verbatim>\<open>except\<close> turns any exception into the fallback.\<close>

definition generate_ai_response ::
  "env \<Rightarrow> ConversationTurn list \<Rightarrow> QualificationData \<Rightarrow> int \<Rightarrow> AIService
     \<Rightarrow> ai_response \<times> AIService" where
  "generate_ai_response ev history data count sv =
     (case generate_try ev history data count sv of
        (Inr res, sv') \<Rightarrow> (res, sv')
      | (Inl e, sv') \<Rightarrow>
          (\<lparr>ai_response.message =
               ''Let me connect you with one of our team members who can better assist you.'',
             complete = True, appointment_scheduled = Some False\<rparr>, sv'))"

section \<open>ai\_service.py: the turn orchestrator\<close>

text \<open>
  The dictionary \<^verbatim>\<open>process_conversation_turn\<close> returns:
  \<^item> \<open>Escalate_result reason response\<close> is
    \<^verbatim>\<open>{"escalate": True, "escalation_reason": reason, "response": response}\<close>;
  \<^item> \<open>Complete_result response data scheduled\<close> is \<^verbatim>\<open>{"complete": True, "response": response,
    "qualification_data": data, "appointment_scheduled": scheduled}\<close>;
  \<^item> \<open>Continue_result response data\<close> is \<^verbatim>\<open>{"response": response, "qualification_data": data}\<close>.
\<close>

datatype turn_result =
    Escalate_result string string
  | Complete_result string QualificationData bool
  | Continue_result string QualificationData

text \<open>
  The body of the \<^verbatim>\<open>try\<close> of \<^verbatim>\<open>process_conversation_turn\<close>. Every update of
  \<^verbatim>\<open>session_context\<close> is an update of the dictionary at its address, whether
  \<^verbatim>\<open>active_sessions\<close> holds that address or not. An exception leaves the service as it is
  at the statement that raised.
\<close>

definition turn_try ::
  "env \<Rightarrow> string \<Rightarrow> string \<Rightarrow> string \<Rightarrow> AIService \<Rightarrow> (error + turn_result) \<times> AIService" where
  "turn_try ev lead_id user_speech call_sid sv0 =
    (case raises ev At_session of Some e \<Rightarrow> (Inl e, sv0) | None \<Rightarrow>
     (let (session_context, sv1) = session_get sv0 lead_id in
      case raises ev At_user_turn of Some e \<Rightarrow> (Inl e, sv1) | None \<Rightarrow>
      (let user_turn = \<lparr>speaker = ''user'', ConversationTurn.message = user_speech,
                        audio_url = None, confidence_score = Some (95 / 100)\<rparr>;
           sv2 = update_session session_context
                   (\<lambda>s. s\<lparr>conversation_history := conversation_history s @ [user_turn]\<rparr>) sv1;
           sv3 = update_session session_context (\<lambda>s. s\<lparr>turn_count := turn_count s + 1\<rparr>) sv2
       in
       case raises ev At_extract of Some e \<Rightarrow> (Inl e, sv3) | None \<Rightarrow>
       (let (extracted_data, sv4) =
              extract_qualification_data ev user_speech
                (qualification_data (heap sv3 session_context)) sv3;
            sv5 = update_session session_context
                    (\<lambda>s. s\<lparr>qualification_data := extracted_data\<rparr>) sv4
        in
        case raises ev At_check of Some e \<Rightarrow> (Inl e, sv5) | None \<Rightarrow>
        (case check_escalation_conditions user_speech extracted_data of
           Escalation escalation_reason response \<Rightarrow>
             (Inr (Escalate_result escalation_reason response), sv5)
         | No_escalation \<Rightarrow>
           (case raises ev At_generate of Some e \<Rightarrow> (Inl e, sv5) | None \<Rightarrow>
            (let (ai_resp, sv6) =
                   generate_ai_response ev
                     (conversation_history (heap sv5 session_context))
                     (qualification_data (heap sv5 session_context))
                     (turn_count (heap sv5 session_context)) sv5
             in
             case raises ev At_ai_turn of Some e \<Rightarrow> (Inl e, sv6) | None \<Rightarrow>
             (let ai_turn = \<lparr>speaker = ''assistant'',
                             ConversationTurn.message = ai_response.message ai_resp,
                             audio_url = None, confidence_score = None\<rparr>;
                  sv7 = update_session session_context
                          (\<lambda>s. s\<lparr>conversation_history := conversation_history s @ [ai_turn]\<rparr>) sv6
              in
              case raises ev At_store of Some e \<Rightarrow> (Inl e, sv7) | None \<Rightarrow>
              (let sv8 = sv7\<lparr>active_sessions := (active_sessions sv7)(lead_id \<mapsto> session_context)\<rparr>
               in
               case raises ev At_result of Some e \<Rightarrow> (Inl e, sv8) | None \<Rightarrow>
               (if complete ai_resp then
                  (Inr (Complete_result (ai_response.message ai_resp)
                          (qualification_data (heap sv8 session_context))
                          (case appointment_scheduled ai_resp of Some b \<Rightarrow> b | None \<Rightarrow> False)),
                   sv8)
                else
                  (Inr (Continue_result (ai_response.message ai_resp)
                          (qualification_data (heap sv8 session_context))),
                   sv8)))))))))))"

text \<open>\<^verbatim>\<open>process_conversation_turn\<close>: the \<^verbatim>\<open>except\<close> turns any exception into an escalation.\<close>

definition process_conversation_turn ::
  "env \<Rightarrow> string \<Rightarrow> string \<Rightarrow> string \<Rightarrow> AIService \<Rightarrow> turn_result \<times> AIService" where
  "process_conversation_turn ev lead_id user_speech call_sid sv =
     (case turn_try ev lead_id user_speech call_sid sv of
        (Inr res, sv') \<Rightarrow> (res, sv')
      | (Inl e, sv') \<Rightarrow>
          (Escalate_result ''technical_error''
             ''I'm experiencing technical difficulties. Let me connect you with a team member.'',
           sv'))"

text \<open>\<^verbatim>\<open>self.active_sessions.get(lead_id)\<close> and \<^verbatim>\<open>get_session_summary\<close>.\<close>

definition active_session :: "AIService \<Rightarrow> string \<Rightarrow> session option" where
  "active_session sv lead_id =
     (case active_sessions sv lead_id of None \<Rightarrow> None | Some r \<Rightarrow> Some (heap sv r))"

definition get_session_summary :: "AIService \<Rightarrow> string \<Rightarrow> (QualificationData \<times> nat \<times> int) option" where
  "get_session_summary sv lead_id =
     (case active_session sv lead_id of
        None \<Rightarrow> None
      | Some session \<Rightarrow>
          Some (qualification_data session, length (conversation_history session),
                turn_count session))"

section \<open>Vocabulary of the statements\<close>

text \<open>
  The dictionary a turn for \<open>lead_id\<close> starts from, by value: the stored one, or the
  default.
\<close>

definition starting_session :: "AIService \<Rightarrow> string \<Rightarrow> session" where
  "starting_session sv lead_id =
     (case active_session sv lead_id of None \<Rightarrow> new_session | Some s \<Rightarrow> s)"

text \<open>
  The data the extractor returns and the dictionary the generator returns: neither depends
  on the state of the service, which only records the requests.
\<close>

definition extracted_data :: "env \<Rightarrow> string \<Rightarrow> QualificationData \<Rightarrow> QualificationData" where
  "extracted_data ev user_input current_data =
     fst (extract_qualification_data ev user_input current_data AIService_init)"

definition generated_response ::
  "env \<Rightarrow> ConversationTurn list \<Rightarrow> QualificationData \<Rightarrow> int \<Rightarrow> ai_response" where
  "generated_response ev history data count =
     fst (generate_ai_response ev history data count AIService_init)"

text \<open>The requests the generator sends: none when it concludes, one otherwise.\<close>

definition generator_requests ::
  "ConversationTurn list \<Rightarrow> QualificationData \<Rightarrow> int \<Rightarrow> request list" where
  "generator_requests history data count =
     (if count \<ge> 10 \<or> identify_missing_data data = [] then []
      else [NextQuestionRequest (identify_missing_data data) (conversation_text_of history) data])"

text \<open>Environments and a service used as concrete inputs.\<close>

definition offline_env :: env where
  "offline_env =
     \<lparr>create = (\<lambda>req. Inl APIError), json_loads = (\<lambda>content. Inl JSONDecodeError),
      raises = (\<lambda>site. None)\<rparr>"

definition scripted_env :: env where
  "scripted_env =
     \<lparr>create = (\<lambda>req. case req of
                   ExtractionRequest u d \<Rightarrow> Inr ''chief_complaint: toothache''
                 | NextQuestionRequest ms t d \<Rightarrow> Inr '' How bad is the pain? ''),
      json_loads = (\<lambda>content. Inr [Field (Chief_complaint ''toothache'')]),
      raises = (\<lambda>site. None)\<rparr>"

definition terrible_env :: env where
  "terrible_env =
     \<lparr>create = (\<lambda>req. Inr ''pain_level: terrible''),
      json_loads = (\<lambda>content. Inr [Pain_level ''terrible'']),
      raises = (\<lambda>site. None)\<rparr>"

definition faulty_env :: env where
  "faulty_env =
     \<lparr>create = (\<lambda>req. Inl APIError), json_loads = (\<lambda>content. Inl JSONDecodeError),
      raises = (\<lambda>site. if site = At_generate then Some InternalError else None)\<rparr>"

text \<open>A service that holds, for the lead \<^verbatim>\<open>lead-7\<close>, a session with severe pain recorded.\<close>

definition severe_session :: session where
  "severe_session =
     \<lparr>conversation_history =
        [\<lparr>speaker = ''user'', ConversationTurn.message = ''It hurts a lot, maybe 8'',
          audio_url = None, confidence_score = Some (95 / 100)\<rparr>,
         \<lparr>speaker = ''assistant'', ConversationTurn.message = ''How is it now?'',
          audio_url = None, confidence_score = None\<rparr>],
      qualification_data = QualificationData_new\<lparr>pain_level := Some SEVERE, urgency := HIGH\<rparr>,
      turn_count = 1\<rparr>"

definition severe_service :: AIService where
  "severe_service =
     \<lparr>requests = [], heap = (\<lambda>r. severe_session), next_ref = 1,
      active_sessions = [''lead-7'' \<mapsto> 0]\<rparr>"

section \<open>Facts about the string helpers\<close>

lemma str_in_sublist: "str_in sub s = sublist sub s"
  by (induction s) (auto simp: sublist_Cons_right)

lemma str_in_lower: "str_in sub s \<Longrightarrow> str_in (lower sub) (lower s)"
  unfolding str_in_sublist lower_def by (rule map_mono_sublist)

lemma lower_nine: "lower ''9'' = ''9''"
  by (simp add: lower_def lower_char_def)

lemma lower_ten: "lower ''10'' = ''10''"
  by (simp add: lower_def lower_char_def)

lemma lower_breathing_utterance:
  "lower ''I can't breathe and there's facial swelling''
     = ''i can't breathe and there's facial swelling''"
  by (simp add: lower_def lower_char_def)

lemma scan_keywords_no_match:
  "\<forall>keyword \<in> set kws. \<not> str_in keyword user_lower
     \<Longrightarrow> scan_keywords kws user_lower = No_escalation"
  by (induction kws) auto

section \<open>Facts about the components\<close>

lemma truthy_pain_iff: "truthy_pain v = (v \<noteq> None)"
  by (cases v) (auto simp: truthy_pain_def intro: PainLevel_value.elims)

lemma escalate_iff: "(\<not> escalate c) = (c = No_escalation)"
  by (cases c) auto

lemma session_get_heap:
  "heap (snd (session_get sv l)) (fst (session_get sv l)) = starting_session sv l"
  by (simp add: session_get_def starting_session_def active_session_def split: option.splits)

lemma session_get_requests: "requests (snd (session_get sv l)) = requests sv"
  by (simp add: session_get_def split: option.splits)

lemma session_get_active: "active_sessions (snd (session_get sv l)) = active_sessions sv"
  by (simp add: session_get_def split: option.splits)

lemma extract_state:
  "snd (extract_qualification_data ev u d sv)
     = sv\<lparr>requests := requests sv @ [ExtractionRequest u d]\<rparr>"
  by (simp add: extract_qualification_data_def extract_try_def chat_create_def
           split: sum.splits prod.splits option.splits)

lemma extract_data_indep:
  "fst (extract_qualification_data ev u d sv) = fst (extract_qualification_data ev u d sv0)"
  by (simp add: extract_qualification_data_def extract_try_def chat_create_def
           split: sum.splits prod.splits option.splits)

lemma extract_eq:
  "extract_qualification_data ev u d sv =
     (extracted_data ev u d, sv\<lparr>requests := requests sv @ [ExtractionRequest u d]\<rparr>)"
  using extract_state[of ev u d sv] extract_data_indep[of ev u d sv AIService_init]
  by (simp add: extracted_data_def prod_eq_iff)

lemma generate_state:
  "snd (generate_ai_response ev h d n sv)
     = sv\<lparr>requests := requests sv @ generator_requests h d n\<rparr>"
  by (auto simp add: generate_ai_response_def generate_try_def chat_create_def
             generator_requests_def Let_def
           split: sum.splits prod.splits option.splits)

lemma generate_indep:
  "fst (generate_ai_response ev h d n sv) = fst (generate_ai_response ev h d n sv0)"
  by (auto simp add: generate_ai_response_def generate_try_def chat_create_def Let_def
           split: sum.splits prod.splits option.splits)

lemma generate_eq:
  "generate_ai_response ev h d n sv =
     (generated_response ev h d n, sv\<lparr>requests := requests sv @ generator_requests h d n\<rparr>)"
  using generate_state[of ev h d n sv] generate_indep[of ev h d n sv AIService_init]
  by (simp add: generated_response_def prod_eq_iff)

section \<open>The pain scale\<close>

text \<open>
  C7. A raw pain-level string that contains \<^verbatim>\<open>"9"\<close> or \<^verbatim>\<open>"10"\<close> is normalised to the
  emergency level, whatever else it contains: the digits survive lower-casing and the first
  rule is tried before every other.
\<close>

theorem normalize_pain_level_nine_or_ten:
  "str_in ''9'' raw \<or> str_in ''10'' raw
     \<Longrightarrow> normalize_pain_level raw = Some PainLevel.EMERGENCY"
  using str_in_lower[of "''9''" raw] str_in_lower[of "''10''" raw]
  by (auto simp add: normalize_pain_level_def lower_nine lower_ten)

theorem normalize_pain_level_nine_or_ten_witness:
  "(str_in ''9'' ''Mild, no pain, maybe a 9'' \<or> str_in ''10'' ''Mild, no pain, maybe a 9'')
     \<and> normalize_pain_level ''Mild, no pain, maybe a 9'' = Some PainLevel.EMERGENCY"
  using normalize_pain_level_nine_or_ten[of "''Mild, no pain, maybe a 9''"] by simp

section \<open>The escalation evaluator\<close>

text \<open>
  C1, as stated, fails: with the pain level already at emergency, the evaluator answers the
  utterance "I can't breathe and there's facial swelling" with the reason
  \<^verbatim>\<open>severe_pain\<close>, not \<^verbatim>\<open>emergency_condition\<close>, because the pain-level rule is tried first.
\<close>

theorem evaluate_breathing_utterance_counterexample:
  "\<not> (escalate (check_escalation_conditions ''I can't breathe and there's facial swelling''
                  (QualificationData_new\<lparr>pain_level := Some PainLevel.EMERGENCY\<rparr>))
       \<and> reason (check_escalation_conditions ''I can't breathe and there's facial swelling''
                   (QualificationData_new\<lparr>pain_level := Some PainLevel.EMERGENCY\<rparr>))
           = Some ''emergency_condition'')"
  by (simp add: check_escalation_conditions_def QualificationData_new_def)

text \<open>
  C1, amended. For the utterance "I can't breathe and there's facial swelling" the evaluator
  escalates whatever the qualification data are; the reason is \<^verbatim>\<open>severe_pain\<close> when the pain
  level is emergency and \<^verbatim>\<open>emergency_condition\<close> in every other case.
\<close>

theorem evaluate_breathing_utterance:
  "escalate (check_escalation_conditions ''I can't breathe and there's facial swelling'' d)
   \<and> reason (check_escalation_conditions ''I can't breathe and there's facial swelling'' d)
       = Some (if pain_level d = Some PainLevel.EMERGENCY
               then ''severe_pain'' else ''emergency_condition'')"
  by (simp add: check_escalation_conditions_def lower_breathing_utterance emergency_keywords_def)

text \<open>
  C9. On data whose \<^verbatim>\<open>emergency_indicators\<close> list is not empty, whose pain level is not
  emergency and whose chief complaint contains none of "swelling", "fever", "trauma",
  "bleeding", \<^verbatim>\<open>requires_escalation\<close> is true, while the evaluator does not escalate for any
  utterance that, lower-cased, contains none of its keywords.
\<close>

theorem requires_escalation_fires_where_evaluator_is_silent:
  assumes "emergency_indicators d \<noteq> []"
    and "pain_level d \<noteq> Some PainLevel.EMERGENCY"
    and "\<forall>w \<in> set [''swelling'', ''fever'', ''trauma'', ''bleeding''].
           \<not> str_in w (lower (or_empty (chief_complaint d)))"
    and "\<forall>keyword \<in> set emergency_keywords. \<not> str_in keyword (lower utterance)"
  shows "requires_escalation d \<and> \<not> escalate (check_escalation_conditions utterance d)"
  using assms
  by (simp add: requires_escalation_def check_escalation_conditions_def scan_keywords_no_match)

theorem requires_escalation_fires_where_evaluator_is_silent_witness:
  "emergency_indicators (QualificationData_new\<lparr>emergency_indicators := [''jaw locked'']\<rparr>) \<noteq> []
   \<and> pain_level (QualificationData_new\<lparr>emergency_indicators := [''jaw locked'']\<rparr>)
       \<noteq> Some PainLevel.EMERGENCY
   \<and> requires_escalation (QualificationData_new\<lparr>emergency_indicators := [''jaw locked'']\<rparr>)
   \<and> \<not> escalate (check_escalation_conditions ''My jaw is locked''
                    (QualificationData_new\<lparr>emergency_indicators := [''jaw locked'']\<rparr>))"
proof -
  let ?d = "QualificationData_new\<lparr>emergency_indicators := [''jaw locked'']\<rparr>"
  have h1: "emergency_indicators ?d \<noteq> []" by simp
  have h2: "pain_level ?d \<noteq> Some PainLevel.EMERGENCY"
    by (simp add: QualificationData_new_def)
  have h3: "\<forall>w \<in> set [''swelling'', ''fever'', ''trauma'', ''bleeding''].
              \<not> str_in w (lower (or_empty (chief_complaint ?d)))"
    by (simp add: QualificationData_new_def or_empty_def lower_def)
  have h4: "\<forall>keyword \<in> set emergency_keywords. \<not> str_in keyword (lower ''My jaw is locked'')"
    by (simp add: emergency_keywords_def lower_def lower_char_def)
  from requires_escalation_fires_where_evaluator_is_silent[OF h1 h2 h3 h4] h1 h2
  show ?thesis by blast
qed

section \<open>The extractor\<close>

text \<open>
  C3 does not hold of the extractor: a pain-level value that \<^verbatim>\<open>_normalize_pain_level\<close> matches
  with none of its rules is assigned all the same, as \<^verbatim>\<open>None\<close>. The lead \<^verbatim>\<open>lead-7\<close> has
  severe pain on record; the reply to "It's terrible" carries the pain level "terrible",
  which no rule matches; after the extraction, and in the session stored after the turn,
  the pain level is unset.
\<close>

theorem no_match_overwrites_pain_level:
  "normalize_pain_level ''terrible'' = None
   \<and> pain_level (qualification_data (starting_session severe_service ''lead-7'')) = Some SEVERE
   \<and> pain_level (extracted_data terrible_env ''It's terrible''
                    (qualification_data (starting_session severe_service ''lead-7''))) = None
   \<and> map_option (\<lambda>s. pain_level (qualification_data s))
        (active_session
           (snd (process_conversation_turn terrible_env ''lead-7'' ''It's terrible'' ''CA7''
                   severe_service)) ''lead-7'') = Some None"
proof -
  have n: "normalize_pain_level ''terrible'' = None"
    by (simp add: normalize_pain_level_def lower_def lower_char_def)
  have s: "starting_session severe_service ''lead-7'' = severe_session"
    by (simp add: starting_session_def active_session_def severe_service_def)
  have e: "extracted_data terrible_env ''It's terrible'' (qualification_data severe_session)
             = QualificationData_new"
    by (simp add: extracted_data_def extract_qualification_data_def extract_try_def
          chat_create_def terrible_env_def severe_session_def n calculate_urgency_def
          QualificationData_new_def)
  have c: "check_escalation_conditions ''It's terrible'' QualificationData_new = No_escalation"
    by (simp add: check_escalation_conditions_def QualificationData_new_def
          emergency_keywords_def lower_def lower_char_def)
  have r: "\<And>site. raises terrible_env site = None"
    by (simp add: terrible_env_def)
  have "active_session
           (snd (process_conversation_turn terrible_env ''lead-7'' ''It's terrible'' ''CA7''
                   severe_service)) ''lead-7'' \<noteq> None
        \<and> pain_level (qualification_data (the (active_session
           (snd (process_conversation_turn terrible_env ''lead-7'' ''It's terrible'' ''CA7''
                   severe_service)) ''lead-7''))) = None"
    by (simp add: process_conversation_turn_def turn_try_def case_prod_beta Let_def
          update_session_def extract_eq generate_eq session_get_heap session_get_requests
          session_get_active active_session_def s e c r)
       (simp add: QualificationData_new_def)
  then show ?thesis using n s e by (auto simp: severe_session_def QualificationData_new_def)
qed

section \<open>The response generator\<close>

text \<open>
  C4. With a turn count of at least ten, or with no required field missing, the generator
  returns a fixed dictionary and leaves the service as it is, so no request reaches the
  model: \<^verbatim>\<open>complete\<close> is true, and \<^verbatim>\<open>appointment_scheduled\<close> is true exactly when the chief
  complaint and the pain level are both set. No field is missing exactly when the chief
  complaint, the pain level, the insurance provider and the preferred appointment time are
  all set (for a string: present and not empty).
\<close>

theorem generator_concludes_without_model_call:
  assumes "count \<ge> 10 \<or> identify_missing_data d = []"
  shows "generate_ai_response ev history d count sv =
           ((if truthy_str (chief_complaint d) \<and> truthy_pain (pain_level d)
             then \<lparr>ai_response.message =
                      ''Thank you for all that information. Based on what you've shared, I'd like to schedule you for an appointment. Let me connect you with our scheduling team.'',
                    complete = True, appointment_scheduled = Some True\<rparr>
             else \<lparr>ai_response.message =
                      ''Thank you for your time. I'll have one of our team members follow up with you to discuss your dental needs in more detail.'',
                    complete = True, appointment_scheduled = Some False\<rparr>), sv)
         \<and> (identify_missing_data d = []) =
             (truthy_str (chief_complaint d) \<and> pain_level d \<noteq> None
              \<and> truthy_str (insurance_provider d)
              \<and> truthy_str (preferred_appointment_time d))"
  using assms
  by (auto simp add: generate_ai_response_def generate_try_def identify_missing_data_def
        truthy_pain_iff)

theorem generator_concludes_without_model_call_witness:
  "generate_ai_response scripted_env [] QualificationData_new 10 AIService_init =
     (\<lparr>ai_response.message =
          ''Thank you for your time. I'll have one of our team members follow up with you to discuss your dental needs in more detail.'',
        complete = True, appointment_scheduled = Some False\<rparr>, AIService_init)"
  using generator_concludes_without_model_call
          [of 10 QualificationData_new scripted_env "[]" AIService_init]
  by (simp add: QualificationData_new_def truthy_str_def)

text \<open>
  C6. When the generator does call the model for the next question and the call fails, it
  returns the fixed fallback dictionary: the "connect you with one of our team members"
  message, \<^verbatim>\<open>complete\<close> true, \<^verbatim>\<open>appointment_scheduled\<close> false. The result is a dictionary, not
  an exception.
\<close>

theorem generator_falls_back_when_model_call_fails:
  assumes "count < 10" and "identify_missing_data d \<noteq> []"
    and "create ev (NextQuestionRequest (identify_missing_data d)
                      (conversation_text_of history) d) = Inl e"
  shows "fst (generate_ai_response ev history d count sv) =
           \<lparr>ai_response.message =
              ''Let me connect you with one of our team members who can better assist you.'',
            complete = True, appointment_scheduled = Some False\<rparr>"
  using assms by (simp add: generate_ai_response_def generate_try_def chat_create_def)

theorem generator_falls_back_when_model_call_fails_witness:
  "fst (generate_ai_response offline_env [] QualificationData_new 1 AIService_init) =
     \<lparr>ai_response.message =
        ''Let me connect you with one of our team members who can better assist you.'',
      complete = True, appointment_scheduled = Some False\<rparr>"
proof -
  have h1: "(1::int) < 10" by simp
  have h2: "identify_missing_data QualificationData_new \<noteq> []"
    by (simp add: identify_missing_data_def QualificationData_new_def truthy_str_def)
  have h3: "create offline_env (NextQuestionRequest (identify_missing_data QualificationData_new)
                      (conversation_text_of []) QualificationData_new) = Inl APIError"
    by (simp add: offline_env_def)
  from generator_falls_back_when_model_call_fails[OF h1 h2 h3] show ?thesis .
qed

section \<open>The turn orchestrator\<close>

text \<open>
  C5. An exception in the body of a turn never leaves \<^verbatim>\<open>process_conversation_turn\<close>: the
  result is the escalation with reason \<^verbatim>\<open>technical_error\<close> and the fixed message, with the
  service as the raising statement found it. A turn during which the environment raises at
  any statement ends in an escalation, never in a continue or complete outcome.
\<close>

theorem fault_becomes_technical_error:
  "(\<forall>e. fst (turn_try ev l u c sv) = Inl e \<longrightarrow>
        process_conversation_turn ev l u c sv =
          (Escalate_result ''technical_error''
             ''I'm experiencing technical difficulties. Let me connect you with a team member.'',
           snd (turn_try ev l u c sv)))
   \<and> (\<forall>site e. raises ev site = Some e \<longrightarrow>
        (\<exists>escalation_reason response.
           fst (process_conversation_turn ev l u c sv)
             = Escalate_result escalation_reason response))"
proof (intro conjI allI impI)
  fix e assume "fst (turn_try ev l u c sv) = Inl e"
  then show "process_conversation_turn ev l u c sv =
          (Escalate_result ''technical_error''
             ''I'm experiencing technical difficulties. Let me connect you with a team member.'',
           snd (turn_try ev l u c sv))"
    by (cases "turn_try ev l u c sv") (auto simp: process_conversation_turn_def)
next
  fix site e assume f: "raises ev site = Some e"
  show "\<exists>escalation_reason response.
           fst (process_conversation_turn ev l u c sv)
             = Escalate_result escalation_reason response"
  proof (cases site)
    case At_session
    with f show ?thesis
      by (simp add: process_conversation_turn_def turn_try_def)
  next
    case At_user_turn
    with f show ?thesis
      by (simp add: process_conversation_turn_def turn_try_def case_prod_beta Let_def
            split: option.splits)
  next
    case At_extract
    with f show ?thesis
      by (simp add: process_conversation_turn_def turn_try_def case_prod_beta Let_def
            split: option.splits)
  next
    case At_check
    with f show ?thesis
      by (simp add: process_conversation_turn_def turn_try_def case_prod_beta Let_def
            split: option.splits)
  next
    case At_generate
    with f show ?thesis
      by (simp add: process_conversation_turn_def turn_try_def case_prod_beta Let_def
            split: option.splits escalation_check.splits)
  next
    case At_ai_turn
    with f show ?thesis
      by (simp add: process_conversation_turn_def turn_try_def case_prod_beta Let_def
            split: option.splits escalation_check.splits)
  next
    case At_store
    with f show ?thesis
      by (simp add: process_conversation_turn_def turn_try_def case_prod_beta Let_def
            split: option.splits escalation_check.splits)
  next
    case At_result
    with f show ?thesis
      by (simp add: process_conversation_turn_def turn_try_def case_prod_beta Let_def
            split: option.splits escalation_check.splits)
  qed
qed


theorem fault_becomes_technical_error_witness:
  "fst (process_conversation_turn faulty_env ''lead-1'' ''My tooth hurts'' ''CA1'' AIService_init)
     = Escalate_result ''technical_error''
         ''I'm experiencing technical difficulties. Let me connect you with a team member.''"
proof -
  have d: "extracted_data faulty_env ''My tooth hurts'' QualificationData_new
             = QualificationData_new"
    by (simp add: extracted_data_def extract_qualification_data_def extract_try_def
          chat_create_def faulty_env_def)
  have c: "check_escalation_conditions ''My tooth hurts'' QualificationData_new = No_escalation"
    by (simp add: check_escalation_conditions_def QualificationData_new_def
          emergency_keywords_def lower_def lower_char_def)
  have s: "starting_session AIService_init ''lead-1'' = new_session"
    by (simp add: starting_session_def active_session_def AIService_init_def)
  have r: "\<And>site. raises faulty_env site
                    = (if site = At_generate then Some InternalError else None)"
    by (simp add: faulty_env_def)
  have h: "fst (turn_try faulty_env ''lead-1'' ''My tooth hurts'' ''CA1'' AIService_init)
             = Inl InternalError"
    by (simp add: turn_try_def case_prod_beta Let_def update_session_def extract_eq
          session_get_heap s new_session_def d c r)
  from fault_becomes_technical_error
         [of faulty_env "''lead-1''" "''My tooth hurts''" "''CA1''" AIService_init]
       h
  show ?thesis by simp
qed

text \<open>
  C2 does not hold of the orchestrator: the escalation returns before the statement that
  stores the session. On the first turn of a lead, when \<^verbatim>\<open>active_sessions\<close> does not hold the
  dictionary yet, an escalating utterance leaves no session under the lead identifier.
\<close>

theorem first_turn_escalation_stores_no_session:
  "fst (process_conversation_turn offline_env ''lead-1'' ''I have a fever'' ''CA1''
          AIService_init)
     = Escalate_result ''emergency_condition''
         ''This sounds like it needs immediate attention. I'm connecting you with our emergency dental team right now.''
   \<and> active_session
         (snd (process_conversation_turn offline_env ''lead-1'' ''I have a fever'' ''CA1''
                 AIService_init)) ''lead-1'' = None
   \<and> get_session_summary
         (snd (process_conversation_turn offline_env ''lead-1'' ''I have a fever'' ''CA1''
                 AIService_init)) ''lead-1'' = None"
proof -
  have d: "extracted_data offline_env ''I have a fever'' QualificationData_new
             = QualificationData_new"
    by (simp add: extracted_data_def extract_qualification_data_def extract_try_def
          chat_create_def offline_env_def)
  have c: "check_escalation_conditions ''I have a fever'' QualificationData_new
             = Escalation ''emergency_condition''
         ''This sounds like it needs immediate attention. I'm connecting you with our emergency dental team right now.''"
    by (simp add: check_escalation_conditions_def QualificationData_new_def
          emergency_keywords_def lower_def lower_char_def)
  have s: "starting_session AIService_init ''lead-1'' = new_session"
    by (simp add: starting_session_def active_session_def AIService_init_def)
  have r: "\<And>site. raises offline_env site = None"
    by (simp add: offline_env_def)
  have a: "active_sessions AIService_init = Map.empty"
    by (simp add: AIService_init_def)
  show ?thesis
    by (simp add: process_conversation_turn_def turn_try_def case_prod_beta Let_def
          update_session_def extract_eq session_get_heap session_get_active s new_session_def
          d c r a get_session_summary_def active_session_def)
qed

text \<open>
  C8. When no statement up to the evaluator raises, the requests of a turn are the
  extraction request, followed by the generator's request only if the evaluator, run on
  the extracted data, did not escalate. When the evaluator escalates, the turn returns its
  reason and message, and the history has gained the user turn and nothing else.
\<close>

theorem escalation_skips_generator:
  assumes "raises ev At_session = None" and "raises ev At_user_turn = None"
    and "raises ev At_extract = None" and "raises ev At_check = None"
  shows "requests (snd (process_conversation_turn ev l u c sv)) =
           requests sv @ [ExtractionRequest u (qualification_data (starting_session sv l))] @
           (if escalate (check_escalation_conditions u
                           (extracted_data ev u (qualification_data (starting_session sv l))))
                 \<or> raises ev At_generate \<noteq> None
            then []
            else generator_requests
                   (conversation_history (starting_session sv l) @
                      [\<lparr>speaker = ''user'', ConversationTurn.message = u,
                        audio_url = None, confidence_score = Some (95 / 100)\<rparr>])
                   (extracted_data ev u (qualification_data (starting_session sv l)))
                   (turn_count (starting_session sv l) + 1))
         \<and> (\<forall>escalation_reason response.
               check_escalation_conditions u
                 (extracted_data ev u (qualification_data (starting_session sv l)))
                 = Escalation escalation_reason response \<longrightarrow>
               fst (process_conversation_turn ev l u c sv)
                 = Escalate_result escalation_reason response
               \<and> conversation_history
                   (heap (snd (process_conversation_turn ev l u c sv)) (fst (session_get sv l)))
                 = conversation_history (starting_session sv l) @
                     [\<lparr>speaker = ''user'', ConversationTurn.message = u,
                       audio_url = None, confidence_score = Some (95 / 100)\<rparr>])"
  using assms
  by (cases "check_escalation_conditions u
               (extracted_data ev u (qualification_data (starting_session sv l)))")
     (auto simp add: process_conversation_turn_def turn_try_def case_prod_beta Let_def
        update_session_def extract_eq generate_eq session_get_heap session_get_requests
        split: option.splits)

theorem escalation_skips_generator_witness:
  "requests (snd (process_conversation_turn offline_env ''lead-2'' ''I was in an accident''
                    ''CA2'' AIService_init))
     = [ExtractionRequest ''I was in an accident'' QualificationData_new]
   \<and> fst (process_conversation_turn offline_env ''lead-2'' ''I was in an accident''
            ''CA2'' AIService_init)
       = Escalate_result ''emergency_condition''
           ''This sounds like it needs immediate attention. I'm connecting you with our emergency dental team right now.''"
proof -
  have r: "\<And>site. raises offline_env site = None"
    by (simp add: offline_env_def)
  have s: "starting_session AIService_init ''lead-2'' = new_session"
    by (simp add: starting_session_def active_session_def AIService_init_def)
  have d: "extracted_data offline_env ''I was in an accident'' QualificationData_new
             = QualificationData_new"
    by (simp add: extracted_data_def extract_qualification_data_def extract_try_def
          chat_create_def offline_env_def)
  have c: "check_escalation_conditions ''I was in an accident'' QualificationData_new
             = Escalation ''emergency_condition''
           ''This sounds like it needs immediate attention. I'm connecting you with our emergency dental team right now.''"
    by (simp add: check_escalation_conditions_def QualificationData_new_def
          emergency_keywords_def lower_def lower_char_def)
  have q: "requests AIService_init = []"
    by (simp add: AIService_init_def)
  from escalation_skips_generator
         [of offline_env "''lead-2''" "''I was in an accident''" "''CA2''" AIService_init,
          OF r r r r]
  show ?thesis by (simp add: s new_session_def d c q)
qed

text \<open>
  C10. On a turn without exception on which the evaluator does not escalate, the session
  stored under the lead identifier is the starting one with two turns appended (the user
  turn carrying the utterance, then the assistant turn carrying the generated message),
  the extracted data, and the turn count incremented by one; the outcome is a complete or
  a continue result.
\<close>

theorem turn_without_escalation_appends_two_turns:
  assumes "\<forall>site. raises ev site = None"
    and "\<not> escalate (check_escalation_conditions u
                        (extracted_data ev u (qualification_data (starting_session sv l))))"
  shows "active_session (snd (process_conversation_turn ev l u c sv)) l =
           Some \<lparr>conversation_history =
                   conversation_history (starting_session sv l) @
                     [\<lparr>speaker = ''user'', ConversationTurn.message = u,
                        audio_url = None, confidence_score = Some (95 / 100)\<rparr>,
                      \<lparr>speaker = ''assistant'',
                        ConversationTurn.message = ai_response.message
                          (generated_response ev
                             (conversation_history (starting_session sv l) @
                                [\<lparr>speaker = ''user'', ConversationTurn.message = u,
                                  audio_url = None, confidence_score = Some (95 / 100)\<rparr>])
                             (extracted_data ev u (qualification_data (starting_session sv l)))
                             (turn_count (starting_session sv l) + 1)),
                        audio_url = None, confidence_score = None\<rparr>],
                 qualification_data =
                   extracted_data ev u (qualification_data (starting_session sv l)),
                 turn_count = turn_count (starting_session sv l) + 1\<rparr>
         \<and> (\<exists>response scheduled.
               fst (process_conversation_turn ev l u c sv)
                 = Complete_result response
                     (extracted_data ev u (qualification_data (starting_session sv l)))
                     scheduled
               \<or> fst (process_conversation_turn ev l u c sv)
                 = Continue_result response
                     (extracted_data ev u (qualification_data (starting_session sv l))))"
  using assms
  by (simp add: process_conversation_turn_def turn_try_def case_prod_beta Let_def
        update_session_def extract_eq generate_eq session_get_heap session_get_requests
        session_get_active escalate_iff active_session_def)

theorem turn_without_escalation_appends_two_turns_witness:
  "active_session
     (snd (process_conversation_turn scripted_env ''lead-1'' ''My tooth hurts'' ''CA1''
             AIService_init)) ''lead-1''
     = Some \<lparr>conversation_history =
               [\<lparr>speaker = ''user'', ConversationTurn.message = ''My tooth hurts'',
                 audio_url = None, confidence_score = Some (95 / 100)\<rparr>,
                \<lparr>speaker = ''assistant'', ConversationTurn.message = ''How bad is the pain?'',
                 audio_url = None, confidence_score = None\<rparr>],
             qualification_data = QualificationData_new\<lparr>chief_complaint := Some ''toothache''\<rparr>,
             turn_count = 1\<rparr>"
proof -
  have r: "\<forall>site. raises scripted_env site = None"
    by (simp add: scripted_env_def)
  have s: "starting_session AIService_init ''lead-1'' = new_session"
    by (simp add: starting_session_def active_session_def AIService_init_def)
  have d: "extracted_data scripted_env ''My tooth hurts'' QualificationData_new
             = QualificationData_new\<lparr>chief_complaint := Some ''toothache''\<rparr>"
    by (simp add: extracted_data_def extract_qualification_data_def extract_try_def
          chat_create_def scripted_env_def calculate_urgency_def QualificationData_new_def)
  have c: "\<not> escalate (check_escalation_conditions ''My tooth hurts''
             (extracted_data scripted_env ''My tooth hurts''
                (qualification_data (starting_session AIService_init ''lead-1''))))"
    by (simp add: s new_session_def d)
       (simp add: check_escalation_conditions_def QualificationData_new_def
          emergency_keywords_def lower_def lower_char_def)
  have g: "ai_response.message (generated_response scripted_env
             [\<lparr>speaker = ''user'', ConversationTurn.message = ''My tooth hurts'',
                 audio_url = None, confidence_score = Some (95 / 100)\<rparr>]
             (QualificationData_new\<lparr>chief_complaint := Some ''toothache''\<rparr>) 1)
           = ''How bad is the pain?''"
    by (simp add: generated_response_def generate_ai_response_def generate_try_def
          chat_create_def scripted_env_def identify_missing_data_def truthy_pain_def
          truthy_str_def QualificationData_new_def strip_def isspace_def)
  from turn_without_escalation_appends_two_turns
         [OF r c, of "''CA1''"] g
  show ?thesis by (simp add: s new_session_def d)
qed

end
